theory Spec2Isabelle
  imports Complex_Main
begin

section \<open>Data model\<close>

text \<open>
  The scoring engine (\<^verbatim>\<open>analysis_engine.py\<close>) and the backtest
  (\<^verbatim>\<open>backtest_engine.py\<close>) work on rows of a pandas data frame. A cell is a
  float; \<^verbatim>\<open>NaN\<close> marks an indicator that is not defined (window too short, key
  missing: \<^verbatim>\<open>row.get(k, np.nan)\<close>). A finite float is modelled as a \<open>real\<close>, and
  a possibly undefined cell as \<open>real option\<close>, with \<open>None\<close> for \<^verbatim>\<open>NaN\<close>, so
  that \<^verbatim>\<open>pd.notna(x)\<close> is \<open>x \<noteq> None\<close>. The column \<^verbatim>\<open>close\<close> is read with
  \<^verbatim>\<open>float(row["close"])\<close> and holds a finite float in every row (rows whose close
  is not numeric are dropped before the frame reaches this code), so it is a \<open>real\<close>.
  The score is a Python \<^verbatim>\<open>int\<close>, an \<open>int\<close>.
\<close>

record ind_row =
  close :: real
  rsi14 :: "real option"
  ma20 :: "real option"
  ma60 :: "real option"
  ma120 :: "real option"
  vol_ratio :: "real option"
  vol20_pct :: "real option"
  mom20 :: "real option"
  mom60 :: "real option"
  dd252 :: "real option"
  pos20 :: "real option"

text \<open>
  The five rating labels returned by \<^verbatim>\<open>score_to_rating\<close> are Korean strings; in
  the order of the source they read strong buy, buy, neutral, sell, strong sell.
\<close>

datatype rating = Strong_Buy | Buy | Neutral | Sell | Strong_Sell

text \<open>
  A reason is one of the strings that \<^verbatim>\<open>_score_from_row\<close> appends to
  \<^verbatim>\<open>reasons\<close>. There is one constructor for each string of the source, in the order
  in which they occur there; a string that embeds a formatted indicator value carries
  that value.
\<close>

datatype reason =
    Above_MA20 | Below_MA20
  | Above_MA60 | Below_MA60
  | Above_MA120 | Below_MA120
  | MA_Bullish_Alignment | MA_Bearish_Alignment
  | RSI_Oversold real | RSI_Overbought real | RSI_Neutral real
  | Mom20_Up real | Mom20_Down real
  | Mom60_Up real | Mom60_Down real
  | Volume_Surge real | Volume_Contraction real
  | Volatility_High real | Volatility_Low real
  | Deep_Pullback real | Near_High
  | Range_Low | Range_High

type_synonym score_state = "int \<times> reason list"

section \<open>Rating Mapper: \<^verbatim>\<open>score_to_rating\<close>\<close>

definition score_to_rating :: "int \<Rightarrow> rating" where
  "score_to_rating score =
     (if score \<ge> 80 then Strong_Buy
      else if score \<ge> 60 then Buy
      else if score \<ge> 40 then Neutral
      else if score \<ge> 20 then Sell
      else Strong_Sell)"

text \<open>
  The ordinal order of the ratings, Strong Sell < Sell < Neutral < Buy < Strong Buy,
  as a rank. The source has no such order; it is the one the specification fixes.
\<close>

fun rating_rank :: "rating \<Rightarrow> nat" where
  "rating_rank Strong_Sell = 0"
| "rating_rank Sell = 1"
| "rating_rank Neutral = 2"
| "rating_rank Buy = 3"
| "rating_rank Strong_Buy = 4"

section \<open>Row Scorer: \<^verbatim>\<open>_score_from_row\<close>\<close>

text \<open>
  \<^verbatim>\<open>def above(x): return pd.notna(x) and close > float(x)\<close>
\<close>

definition above :: "real \<Rightarrow> real option \<Rightarrow> bool" where
  "above c x = (case x of None \<Rightarrow> False | Some v \<Rightarrow> c > v)"

text \<open>
  The source updates the local variables \<^verbatim>\<open>s\<close> and \<^verbatim>\<open>reasons\<close> in eleven
  consecutive \<^verbatim>\<open>if\<close> blocks. Each block is a step on the pair of the two.
\<close>

definition ma20_step :: "ind_row \<Rightarrow> score_state \<Rightarrow> score_state" where
  "ma20_step row st =
     (case ma20 row of
        None \<Rightarrow> st
      | Some _ \<Rightarrow>
          (fst st + (if above (close row) (ma20 row) then 8 else - 8),
           snd st @ [if above (close row) (ma20 row) then Above_MA20 else Below_MA20]))"

definition ma60_step :: "ind_row \<Rightarrow> score_state \<Rightarrow> score_state" where
  "ma60_step row st =
     (case ma60 row of
        None \<Rightarrow> st
      | Some _ \<Rightarrow>
          (fst st + (if above (close row) (ma60 row) then 10 else - 10),
           snd st @ [if above (close row) (ma60 row) then Above_MA60 else Below_MA60]))"

definition ma120_step :: "ind_row \<Rightarrow> score_state \<Rightarrow> score_state" where
  "ma120_step row st =
     (case ma120 row of
        None \<Rightarrow> st
      | Some _ \<Rightarrow>
          (fst st + (if above (close row) (ma120 row) then 6 else - 6),
           snd st @ [if above (close row) (ma120 row) then Above_MA120 else Below_MA120]))"

definition alignment_step :: "ind_row \<Rightarrow> score_state \<Rightarrow> score_state" where
  "alignment_step row st =
     (case (ma20 row, ma60 row, ma120 row) of
        (Some a, Some b, Some c) \<Rightarrow>
          if a > b \<and> b > c then (fst st + 8, snd st @ [MA_Bullish_Alignment])
          else if a < b \<and> b < c then (fst st - 8, snd st @ [MA_Bearish_Alignment])
          else st
      | _ \<Rightarrow> st)"

definition rsi_step :: "ind_row \<Rightarrow> score_state \<Rightarrow> score_state" where
  "rsi_step row st =
     (case rsi14 row of
        None \<Rightarrow> st
      | Some r \<Rightarrow>
          if r < 30 then (fst st + 10, snd st @ [RSI_Oversold r])
          else if r > 70 then (fst st - 10, snd st @ [RSI_Overbought r])
          else (fst st, snd st @ [RSI_Neutral r]))"

definition mom20_step :: "ind_row \<Rightarrow> score_state \<Rightarrow> score_state" where
  "mom20_step row st =
     (case mom20 row of
        None \<Rightarrow> st
      | Some m \<Rightarrow>
          if m > 8 / 100 then (fst st + 6, snd st @ [Mom20_Up m])
          else if m < - (8 / 100) then (fst st - 6, snd st @ [Mom20_Down m])
          else st)"

definition mom60_step :: "ind_row \<Rightarrow> score_state \<Rightarrow> score_state" where
  "mom60_step row st =
     (case mom60 row of
        None \<Rightarrow> st
      | Some m \<Rightarrow>
          if m > 15 / 100 then (fst st + 6, snd st @ [Mom60_Up m])
          else if m < - (15 / 100) then (fst st - 6, snd st @ [Mom60_Down m])
          else st)"

definition vol_ratio_step :: "ind_row \<Rightarrow> score_state \<Rightarrow> score_state" where
  "vol_ratio_step row st =
     (case vol_ratio row of
        None \<Rightarrow> st
      | Some vr \<Rightarrow>
          if vr \<ge> 18 / 10 then (fst st + 8, snd st @ [Volume_Surge vr])
          else if vr \<le> 6 / 10 then (fst st - 3, snd st @ [Volume_Contraction vr])
          else st)"

definition vol20_step :: "ind_row \<Rightarrow> score_state \<Rightarrow> score_state" where
  "vol20_step row st =
     (case vol20_pct row of
        None \<Rightarrow> st
      | Some v \<Rightarrow>
          if v \<ge> 35 then (fst st - 5, snd st @ [Volatility_High v])
          else if v \<le> 15 then (fst st + 2, snd st @ [Volatility_Low v])
          else st)"

definition dd252_step :: "ind_row \<Rightarrow> score_state \<Rightarrow> score_state" where
  "dd252_step row st =
     (case dd252 row of
        None \<Rightarrow> st
      | Some dd \<Rightarrow>
          if dd \<le> - (30 / 100) then (fst st + 5, snd st @ [Deep_Pullback dd])
          else if dd \<ge> - (5 / 100) then (fst st - 3, snd st @ [Near_High])
          else st)"

definition pos20_step :: "ind_row \<Rightarrow> score_state \<Rightarrow> score_state" where
  "pos20_step row st =
     (case pos20 row of
        None \<Rightarrow> st
      | Some p \<Rightarrow>
          if p \<le> 15 / 100 then (fst st + 3, snd st @ [Range_Low])
          else if p \<ge> 85 / 100 then (fst st - 2, snd st @ [Range_High])
          else st)"

text \<open>
  The value of \<^verbatim>\<open>(s, reasons)\<close> just before the clamp of line 124: the eleven
  blocks in the order of the source, from \<^verbatim>\<open>s = 50\<close> and \<^verbatim>\<open>reasons = []\<close>.
\<close>

definition raw_score :: "ind_row \<Rightarrow> score_state" where
  "raw_score row =
     pos20_step row (dd252_step row (vol20_step row (vol_ratio_step row
       (mom60_step row (mom20_step row (rsi_step row (alignment_step row
         (ma120_step row (ma60_step row (ma20_step row (50, [])))))))))))"

text \<open>The dictionary \<^verbatim>\<open>features\<close>, with its keys in the order of the source.\<close>

definition features :: "ind_row \<Rightarrow> (string \<times> real option) list" where
  "features row =
     [(''close'', Some (close row)),
      (''rsi14'', rsi14 row),
      (''ma20'', ma20 row),
      (''ma60'', ma60 row),
      (''ma120'', ma120 row),
      (''vol_ratio'', vol_ratio row),
      (''vol20_pct'', vol20_pct row),
      (''mom20'', mom20 row),
      (''mom60'', mom60 row),
      (''dd252'', dd252 row),
      (''pos20'', pos20 row)]"

text \<open>
  \<^verbatim>\<open>s = int(max(0, min(100, s)))\<close> and
  \<^verbatim>\<open>return s, reasons, features\<close>.
\<close>

definition score_from_row ::
  "ind_row \<Rightarrow> int \<times> reason list \<times> (string \<times> real option) list" where
  "score_from_row row =
     (let (s, reasons) = raw_score row
      in (max 0 (min 100 s), reasons, features row))"

text \<open>
  \<^verbatim>\<open>rule_result_from_df\<close> scores the last row and rates the score; the part of
  it that the properties below use is the pair of score and rating.
\<close>

definition score_and_rating :: "ind_row \<Rightarrow> int \<times> rating" where
  "score_and_rating row =
     (let (score, reasons, feats) = score_from_row row
      in (score, score_to_rating score))"

section \<open>Indicator Engine: the range position \<^verbatim>\<open>pos20\<close>\<close>

text \<open>
  Of \<^verbatim>\<open>compute_indicators\<close>, the three columns of lines 33 to 35 over the column
  \<^verbatim>\<open>close\<close> of the sorted frame, a list of finite floats.
  \<^verbatim>\<open>rolling(w)\<close> takes, at row \<open>i\<close>, the \<open>w\<close> values that end at row \<open>i\<close>; with
  fewer than \<open>w\<close> values there (pandas' \<^verbatim>\<open>min_periods\<close> is the window size) the
  result is \<^verbatim>\<open>NaN\<close>. A row beyond the end of the column has no value either.
\<close>

definition rolling :: "nat \<Rightarrow> real list \<Rightarrow> nat \<Rightarrow> real list option" where
  "rolling w xs i =
     (if 0 < w \<and> w \<le> i + 1 \<and> i < length xs
      then Some (take w (drop (i + 1 - w) xs))
      else None)"

definition low20 :: "real list \<Rightarrow> nat \<Rightarrow> real option" where
  "low20 closes i = map_option (\<lambda>ws. Min (set ws)) (rolling 20 closes i)"

definition high20 :: "real list \<Rightarrow> nat \<Rightarrow> real option" where
  "high20 closes i = map_option (\<lambda>ws. Max (set ws)) (rolling 20 closes i)"

text \<open>
  \<^verbatim>\<open>df["high20"] - df["low20"] + 1e-9\<close>, the divisor of \<^verbatim>\<open>pos20\<close>.
\<close>

definition pos20_divisor :: "real list \<Rightarrow> nat \<Rightarrow> real option" where
  "pos20_divisor closes i =
     (case (low20 closes i, high20 closes i) of
        (Some lo, Some hi) \<Rightarrow> Some (hi - lo + 1 / 10 ^ 9)
      | _ \<Rightarrow> None)"

text \<open>
  \<^verbatim>\<open>(df["close"] - df["low20"]) / (df["high20"] - df["low20"] + 1e-9)\<close>.
  Dividing floats by zero in numpy raises nothing: it gives an infinity or
  \<^verbatim>\<open>NaN\<close>. Neither is a finite real, so the model has \<open>None\<close> for a zero divisor;
  the divisor is shown below to be positive, so this branch is never taken.
\<close>

definition pos20_col :: "real list \<Rightarrow> nat \<Rightarrow> real option" where
  "pos20_col closes i =
     (case (low20 closes i, pos20_divisor closes i) of
        (Some lo, Some d) \<Rightarrow> if d = 0 then None else Some ((closes ! i - lo) / d)
      | _ \<Rightarrow> None)"

section \<open>Backtest Engine: \<^verbatim>\<open>backtest_score_bins\<close>\<close>

text \<open>
  The function works on \<^verbatim>\<open>df = compute_indicators(df_raw).reset_index(drop=True)\<close>.
  \<^verbatim>\<open>compute_indicators\<close> sorts the rows and adds columns, so \<^verbatim>\<open>df\<close> has as many
  rows as \<^verbatim>\<open>df_raw\<close>; the relative strength index comes from the library pandas_ta.
  The model starts from \<^verbatim>\<open>df\<close>, a list of indicator rows, whose length is
  \<^verbatim>\<open>len(df)\<close>.

  The two messages of a failure result (\<^verbatim>\<open>"ok": False\<close>) are Korean strings: the
  first says that the data needed for the backtest are insufficient, the second that no
  backtest sample was produced. The five bin names are the rating names followed by the
  range of the bin.
\<close>

datatype failure_message = Insufficient_Data | No_Samples

datatype bin_name =
  Strong_Buy_80_100 | Buy_60_79 | Neutral_40_59 | Sell_20_39 | Strong_Sell_0_19

text \<open>
  A bin of the report: \<^verbatim>\<open>bin\<close>, \<^verbatim>\<open>n\<close>, \<^verbatim>\<open>win_rate\<close>, \<^verbatim>\<open>avg_return\<close>
  (\<open>None\<close> for Python's \<^verbatim>\<open>None\<close>). The overall statistics: \<^verbatim>\<open>n\<close>,
  \<^verbatim>\<open>win_rate\<close>, \<^verbatim>\<open>avg_return\<close>.
\<close>

datatype bin_stat = Bin_Stat bin_name nat "real option" "real option"

datatype overall_stat = Overall_Stat nat real real

datatype backtest_result =
    Failure failure_message
  | Report overall_stat "bin_stat list" int

text \<open>
  What ends a run without a result. \<open>IndexError\<close> is the exception of
  \<^verbatim>\<open>df.iloc[i]\<close> for a row that does not exist. \<open>Non_Finite_Return\<close> is not an
  exception: it marks a forward return that is an infinity (a zero close divides a
  nonzero one), which the reals of this model do not have.
\<close>

datatype abort = IndexError | Non_Finite_Return

datatype cell = NaN | Infinite | Finite real

text \<open>
  \<^verbatim>\<open>df["fwd_ret"] = df["close"].shift(-horizon) / df["close"] - 1.0\<close> at row \<open>i\<close>.
  The shifted column has \<^verbatim>\<open>NaN\<close> where row \<open>i + horizon\<close> does not exist.
\<close>

definition fwd_ret :: "ind_row list \<Rightarrow> int \<Rightarrow> nat \<Rightarrow> cell" where
  "fwd_ret df horizon i =
     (let j = int i + horizon
      in if j < 0 \<or> int (length df) \<le> j then NaN
         else if close (df ! i) = 0
              then (if close (df ! nat j) = 0 then NaN else Infinite)
              else Finite (close (df ! nat j) / close (df ! i) - 1))"

text \<open>
  The loop \<^verbatim>\<open>for i in range(start_i, end_i)\<close>, over the list of its indices, with
  the list \<^verbatim>\<open>rows\<close> it appends to.
\<close>

fun collect_rows ::
  "ind_row list \<Rightarrow> int \<Rightarrow> nat list \<Rightarrow> (int \<times> real) list \<Rightarrow> abort + (int \<times> real) list" where
  "collect_rows df horizon [] rows = Inr rows"
| "collect_rows df horizon (i # is) rows =
     (if length df \<le> i then Inl IndexError
      else
        (case fwd_ret df horizon i of
           NaN \<Rightarrow> collect_rows df horizon is rows
         | Infinite \<Rightarrow> Inl Non_Finite_Return
         | Finite fwd \<Rightarrow>
             collect_rows df horizon is (rows @ [(fst (score_from_row (df ! i)), fwd)])))"

definition bins :: "(int \<times> int \<times> bin_name) list" where
  "bins =
     [(80, 100, Strong_Buy_80_100),
      (60, 79, Buy_60_79),
      (40, 59, Neutral_40_59),
      (20, 39, Sell_20_39),
      (0, 19, Strong_Sell_0_19)]"

text \<open>\<^verbatim>\<open>mask = (scores >= lo) & (scores <= hi)\<close>, for one score.\<close>

definition in_bin :: "int \<Rightarrow> int \<Rightarrow> int \<Rightarrow> bool" where
  "in_bin lo hi score = (score \<ge> lo \<and> score \<le> hi)"

text \<open>\<^verbatim>\<open>float((rr > 0).mean())\<close> and \<^verbatim>\<open>float(rr.mean())\<close>.\<close>

definition win_rate_of :: "real list \<Rightarrow> real" where
  "win_rate_of rr = real (length (filter (\<lambda>r. r > 0) rr)) / real (length rr)"

definition avg_return_of :: "real list \<Rightarrow> real" where
  "avg_return_of rr = sum_list rr / real (length rr)"

text \<open>The body of \<^verbatim>\<open>for lo, hi, name in bins\<close>.\<close>

definition bin_out :: "(int \<times> real) list \<Rightarrow> int \<times> int \<times> bin_name \<Rightarrow> bin_stat" where
  "bin_out rows b =
     (case b of (lo, hi, name) \<Rightarrow>
        (let rr = map snd (filter (\<lambda>(score, fwd). in_bin lo hi score) rows);
             n = length rr
         in if n = 0 then Bin_Stat name 0 None None
            else Bin_Stat name n (Some (win_rate_of rr)) (Some (avg_return_of rr))))"

definition overall :: "(int \<times> real) list \<Rightarrow> overall_stat" where
  "overall rows =
     (let rets = map snd rows
      in Overall_Stat (length rets) (win_rate_of rets) (avg_return_of rets))"

definition backtest_score_bins :: "ind_row list \<Rightarrow> int \<Rightarrow> abort + backtest_result" where
  "backtest_score_bins df horizon =
     (let start_i = 260;
          end_i = int (length df) - horizon - 1
      in if end_i \<le> start_i then Inr (Failure Insufficient_Data)
         else
           (case collect_rows df horizon [nat start_i ..< nat end_i] [] of
              Inl e \<Rightarrow> Inl e
            | Inr rows \<Rightarrow>
                if rows = [] then Inr (Failure No_Samples)
                else Inr (Report (overall rows) (map (bin_out rows) bins) horizon)))"

text \<open>
  The rating whose name a bin carries.
\<close>

fun bin_rating :: "bin_name \<Rightarrow> rating" where
  "bin_rating Strong_Buy_80_100 = Strong_Buy"
| "bin_rating Buy_60_79 = Buy"
| "bin_rating Neutral_40_59 = Neutral"
| "bin_rating Sell_20_39 = Sell"
| "bin_rating Strong_Sell_0_19 = Strong_Sell"

section \<open>Inputs of the concrete scenarios\<close>

definition scenario1 :: ind_row where
  "scenario1 =
     \<lparr>close = 100, rsi14 = Some 50, ma20 = Some 95, ma60 = Some 90, ma120 = Some 85,
      vol_ratio = Some 1, vol20_pct = Some 20, mom20 = Some 0, mom60 = Some 0,
      dd252 = Some 0, pos20 = Some (1 / 2)\<rparr>"

text \<open>A row in which no indicator is defined, as the first row of a series.\<close>

definition undefined_row :: "real \<Rightarrow> ind_row" where
  "undefined_row c =
     \<lparr>close = c, rsi14 = None, ma20 = None, ma60 = None, ma120 = None,
      vol_ratio = None, vol20_pct = None, mom20 = None, mom60 = None,
      dd252 = None, pos20 = None\<rparr>"

text \<open>A row in which every factor raises the score.\<close>

definition bullish_row :: ind_row where
  "bullish_row =
     \<lparr>close = 100, rsi14 = Some 20, ma20 = Some 95, ma60 = Some 90, ma120 = Some 85,
      vol_ratio = Some 2, vol20_pct = Some 10, mom20 = Some (1 / 10), mom60 = Some (2 / 10),
      dd252 = Some (- (4 / 10)), pos20 = Some (1 / 10)\<rparr>"

text \<open>A row whose close equals each of its three moving averages.\<close>

definition tie_row :: ind_row where
  "tie_row =
     \<lparr>close = 100, rsi14 = None, ma20 = Some 100, ma60 = Some 100, ma120 = Some 100,
      vol_ratio = None, vol20_pct = None, mom20 = None, mom60 = None,
      dd252 = None, pos20 = None\<rparr>"

text \<open>
  Frames of rows without indicators and with a constant close of 100: ten rows, 281 rows
  and 262 rows.
\<close>

definition flat_frame :: "nat \<Rightarrow> ind_row list" where
  "flat_frame k = replicate k (undefined_row 100)"

text \<open>Twenty equal closes: a rolling range of zero width at row 19.\<close>

definition flat_closes :: "real list" where
  "flat_closes = replicate 20 100"

section \<open>Auxiliary notions for the proofs\<close>

text \<open>
  What a block adds to the score and to the reasons, read off from its effect on the
  state \<open>(0, [])\<close>.
\<close>

definition step_delta :: "(score_state \<Rightarrow> score_state) \<Rightarrow> int" where
  "step_delta f = fst (f (0, []))"

definition step_reasons :: "(score_state \<Rightarrow> score_state) \<Rightarrow> reason list" where
  "step_reasons f = snd (f (0, []))"

text \<open>The entry \<^verbatim>\<open>n\<close> of a bin of the report.\<close>

fun bin_n :: "bin_stat \<Rightarrow> nat" where
  "bin_n (Bin_Stat name n w a) = n"

section \<open>The blocks of the Row Scorer are translations of the state\<close>

lemmas step_defs =
  ma20_step_def ma60_step_def ma120_step_def alignment_step_def rsi_step_def
  mom20_step_def mom60_step_def vol_ratio_step_def vol20_step_def dd252_step_def
  pos20_step_def

lemma ma20_step_shift:
  "ma20_step row st =
     (fst st + step_delta (ma20_step row), snd st @ step_reasons (ma20_step row))"
  by (simp add: ma20_step_def step_delta_def step_reasons_def split: option.splits)

lemma ma60_step_shift:
  "ma60_step row st =
     (fst st + step_delta (ma60_step row), snd st @ step_reasons (ma60_step row))"
  by (simp add: ma60_step_def step_delta_def step_reasons_def split: option.splits)

lemma ma120_step_shift:
  "ma120_step row st =
     (fst st + step_delta (ma120_step row), snd st @ step_reasons (ma120_step row))"
  by (simp add: ma120_step_def step_delta_def step_reasons_def split: option.splits)

lemma alignment_step_shift:
  "alignment_step row st =
     (fst st + step_delta (alignment_step row), snd st @ step_reasons (alignment_step row))"
  by (simp add: alignment_step_def step_delta_def step_reasons_def split: option.splits)

lemma rsi_step_shift:
  "rsi_step row st =
     (fst st + step_delta (rsi_step row), snd st @ step_reasons (rsi_step row))"
  by (simp add: rsi_step_def step_delta_def step_reasons_def split: option.splits)

lemma mom20_step_shift:
  "mom20_step row st =
     (fst st + step_delta (mom20_step row), snd st @ step_reasons (mom20_step row))"
  by (simp add: mom20_step_def step_delta_def step_reasons_def split: option.splits)

lemma mom60_step_shift:
  "mom60_step row st =
     (fst st + step_delta (mom60_step row), snd st @ step_reasons (mom60_step row))"
  by (simp add: mom60_step_def step_delta_def step_reasons_def split: option.splits)

lemma vol_ratio_step_shift:
  "vol_ratio_step row st =
     (fst st + step_delta (vol_ratio_step row), snd st @ step_reasons (vol_ratio_step row))"
  by (simp add: vol_ratio_step_def step_delta_def step_reasons_def split: option.splits)

lemma vol20_step_shift:
  "vol20_step row st =
     (fst st + step_delta (vol20_step row), snd st @ step_reasons (vol20_step row))"
  by (simp add: vol20_step_def step_delta_def step_reasons_def split: option.splits)

lemma dd252_step_shift:
  "dd252_step row st =
     (fst st + step_delta (dd252_step row), snd st @ step_reasons (dd252_step row))"
  by (simp add: dd252_step_def step_delta_def step_reasons_def split: option.splits)

lemma pos20_step_shift:
  "pos20_step row st =
     (fst st + step_delta (pos20_step row), snd st @ step_reasons (pos20_step row))"
  by (simp add: pos20_step_def step_delta_def step_reasons_def split: option.splits)

lemmas step_shifts =
  ma20_step_shift ma60_step_shift ma120_step_shift alignment_step_shift rsi_step_shift
  mom20_step_shift mom60_step_shift vol_ratio_step_shift vol20_step_shift dd252_step_shift
  pos20_step_shift

text \<open>
  Hence the raw score is 50 plus the eleven deltas, and the reasons are those of the
  eleven blocks in their order.
\<close>

lemma raw_score_sum:
  "raw_score row =
     (50 + step_delta (ma20_step row) + step_delta (ma60_step row)
        + step_delta (ma120_step row) + step_delta (alignment_step row)
        + step_delta (rsi_step row) + step_delta (mom20_step row)
        + step_delta (mom60_step row) + step_delta (vol_ratio_step row)
        + step_delta (vol20_step row) + step_delta (dd252_step row)
        + step_delta (pos20_step row),
      step_reasons (ma20_step row) @ step_reasons (ma60_step row)
        @ step_reasons (ma120_step row) @ step_reasons (alignment_step row)
        @ step_reasons (rsi_step row) @ step_reasons (mom20_step row)
        @ step_reasons (mom60_step row) @ step_reasons (vol_ratio_step row)
        @ step_reasons (vol20_step row) @ step_reasons (dd252_step row)
        @ step_reasons (pos20_step row))"
  unfolding raw_score_def by (simp add: step_shifts)

lemma set_raw_reasons:
  "set (snd (raw_score row)) =
     set (step_reasons (ma20_step row)) \<union> set (step_reasons (ma60_step row))
       \<union> set (step_reasons (ma120_step row)) \<union> set (step_reasons (alignment_step row))
       \<union> set (step_reasons (rsi_step row)) \<union> set (step_reasons (mom20_step row))
       \<union> set (step_reasons (mom60_step row)) \<union> set (step_reasons (vol_ratio_step row))
       \<union> set (step_reasons (vol20_step row)) \<union> set (step_reasons (dd252_step row))
       \<union> set (step_reasons (pos20_step row))"
  by (simp add: raw_score_sum Un_assoc)

text \<open>Only the RSI block reads \<^verbatim>\<open>rsi14\<close>.\<close>

lemma other_steps_without_rsi:
  "ma20_step (row\<lparr>rsi14 := v\<rparr>) = ma20_step row"
  "ma60_step (row\<lparr>rsi14 := v\<rparr>) = ma60_step row"
  "ma120_step (row\<lparr>rsi14 := v\<rparr>) = ma120_step row"
  "alignment_step (row\<lparr>rsi14 := v\<rparr>) = alignment_step row"
  "mom20_step (row\<lparr>rsi14 := v\<rparr>) = mom20_step row"
  "mom60_step (row\<lparr>rsi14 := v\<rparr>) = mom60_step row"
  "vol_ratio_step (row\<lparr>rsi14 := v\<rparr>) = vol_ratio_step row"
  "vol20_step (row\<lparr>rsi14 := v\<rparr>) = vol20_step row"
  "dd252_step (row\<lparr>rsi14 := v\<rparr>) = dd252_step row"
  "pos20_step (row\<lparr>rsi14 := v\<rparr>) = pos20_step row"
  by (simp_all add: fun_eq_iff ma20_step_def ma60_step_def ma120_step_def
      alignment_step_def mom20_step_def mom60_step_def vol_ratio_step_def vol20_step_def
      dd252_step_def pos20_step_def)

lemma score_bounds:
  "0 \<le> fst (score_from_row row) \<and> fst (score_from_row row) \<le> 100"
  by (simp add: score_from_row_def split: prod.splits)

text \<open>
  The clamp is needed at both ends: the raw score ranges from \<open>- 17\<close> to \<open>122\<close>, and
  the upper end is reached.
\<close>

lemma ma_delta_bounds:
  "- 8 \<le> step_delta (ma20_step row) \<and> step_delta (ma20_step row) \<le> 8"
  "- 10 \<le> step_delta (ma60_step row) \<and> step_delta (ma60_step row) \<le> 10"
  "- 6 \<le> step_delta (ma120_step row) \<and> step_delta (ma120_step row) \<le> 6"
  "- 8 \<le> step_delta (alignment_step row) \<and> step_delta (alignment_step row) \<le> 8"
  by (simp_all add: step_delta_def ma20_step_def ma60_step_def ma120_step_def
      alignment_step_def split: option.splits)

lemma momentum_delta_bounds:
  "- 10 \<le> step_delta (rsi_step row) \<and> step_delta (rsi_step row) \<le> 10"
  "- 6 \<le> step_delta (mom20_step row) \<and> step_delta (mom20_step row) \<le> 6"
  "- 6 \<le> step_delta (mom60_step row) \<and> step_delta (mom60_step row) \<le> 6"
  by (simp_all add: step_delta_def rsi_step_def mom20_step_def mom60_step_def
      split: option.splits)

lemma other_delta_bounds:
  "- 3 \<le> step_delta (vol_ratio_step row) \<and> step_delta (vol_ratio_step row) \<le> 8"
  "- 5 \<le> step_delta (vol20_step row) \<and> step_delta (vol20_step row) \<le> 2"
  "- 3 \<le> step_delta (dd252_step row) \<and> step_delta (dd252_step row) \<le> 5"
  "- 2 \<le> step_delta (pos20_step row) \<and> step_delta (pos20_step row) \<le> 3"
  by (simp_all add: step_delta_def vol_ratio_step_def vol20_step_def dd252_step_def
      pos20_step_def split: option.splits)

lemma raw_score_range: "- 17 \<le> fst (raw_score row) \<and> fst (raw_score row) \<le> 122"
  unfolding raw_score_sum fst_conv
  using ma_delta_bounds [of row] momentum_delta_bounds [of row] other_delta_bounds [of row]
  by linarith

lemma bullish_row_clamped:
  "fst (raw_score bullish_row) = 122 \<and> fst (score_from_row bullish_row) = 100"
  by (simp add: score_from_row_def raw_score_def bullish_row_def step_defs above_def)

section \<open>Properties of the Row Scorer and the Rating Mapper\<close>

text \<open>
  C1. For every indicator row, whatever indicators are defined, the score that the Row
  Scorer returns lies between 0 and 100, and it is the raw sum clamped:
  \<open>max 0 (min 100 raw)\<close>.
\<close>

theorem score_clamped:
  "0 \<le> fst (score_from_row row) \<and> fst (score_from_row row) \<le> 100
   \<and> fst (score_from_row row) = max 0 (min 100 (fst (raw_score row)))"
  by (simp add: score_from_row_def split: prod.splits)

text \<open>
  C2, as stated: the row of scenario 1 scores 82 and is rated Strong Buy. It does not:
  \<^verbatim>\<open>dd252 = 0\<close> is at least \<open>- 0.05\<close>, so the drawdown block takes 3 off.
\<close>

theorem scenario1_not_82:
  "fst (score_from_row scenario1) \<noteq> 82
   \<and> score_to_rating (fst (score_from_row scenario1)) \<noteq> Strong_Buy"
  by (simp add: score_from_row_def raw_score_def scenario1_def step_defs above_def
      score_to_rating_def)

text \<open>
  C2, amended. For the row of scenario 1 the Row Scorer returns 79: base 50, +8 above
  ma20, +10 above ma60, +6 above ma120, +8 bullish alignment, RSI neutral (a reason, no
  change) and -3 near the 52-week high; no other factor triggers. The Rating Mapper maps
  79 to Buy.
\<close>

theorem scenario1_score:
  "score_from_row scenario1 =
     (79,
      [Above_MA20, Above_MA60, Above_MA120, MA_Bullish_Alignment, RSI_Neutral 50, Near_High],
      features scenario1)
   \<and> score_and_rating scenario1 = (79, Buy)"
  by (simp add: score_and_rating_def score_from_row_def raw_score_def scenario1_def
      step_defs above_def score_to_rating_def)

text \<open>
  C3. The Rating Mapper is defined on every integer score; its thresholds 80, 60, 40, 20
  are inclusive lower bounds (at least 80 Strong Buy, at least 60 Buy, at least 40
  Neutral, at least 20 Sell, else Strong Sell); and it preserves order: a higher score
  never gets a lower rating.
\<close>

theorem score_to_rating_thresholds:
  "(score_to_rating s = Strong_Buy \<longleftrightarrow> 80 \<le> s)
   \<and> (score_to_rating s = Buy \<longleftrightarrow> 60 \<le> s \<and> s < 80)
   \<and> (score_to_rating s = Neutral \<longleftrightarrow> 40 \<le> s \<and> s < 60)
   \<and> (score_to_rating s = Sell \<longleftrightarrow> 20 \<le> s \<and> s < 40)
   \<and> (score_to_rating s = Strong_Sell \<longleftrightarrow> s < 20)
   \<and> (s2 < s1 \<longrightarrow> rating_rank (score_to_rating s2) \<le> rating_rank (score_to_rating s1))"
  by (simp add: score_to_rating_def)

theorem score_to_rating_thresholds_witness:
  "(30::int) < 85
   \<and> score_to_rating 85 = Strong_Buy
   \<and> score_to_rating 30 = Sell
   \<and> rating_rank (score_to_rating 30) \<le> rating_rank (score_to_rating 85)"
  using score_to_rating_thresholds [of 85 30 85] score_to_rating_thresholds [of 30 30 85]
  by simp

text \<open>
  C6. A row in which every indicator is undefined scores 50 with no reason, and 50 is
  rated Neutral.
\<close>

theorem undefined_row_score:
  "score_from_row (undefined_row c) = (50, [], features (undefined_row c))
   \<and> score_and_rating (undefined_row c) = (50, Neutral)"
  by (simp add: score_and_rating_def score_from_row_def raw_score_def undefined_row_def
      step_defs score_to_rating_def)

text \<open>
  C7. When \<^verbatim>\<open>rsi14\<close> is defined, the RSI block changes the score by +10 exactly when
  it is below 30, by -10 exactly when it is above 70 and by 0 otherwise, and in each of
  the three cases it appends one reason. The raw score of the row is that of the same row
  without RSI plus this change, and its reason list is one longer.
\<close>

theorem rsi_factor:
  assumes "rsi14 row = Some r"
  shows "(fst (rsi_step row (s, rs)) - s = 10 \<longleftrightarrow> r < 30)
       \<and> (fst (rsi_step row (s, rs)) - s = - 10 \<longleftrightarrow> r > 70)
       \<and> (fst (rsi_step row (s, rs)) - s = 0 \<longleftrightarrow> 30 \<le> r \<and> r \<le> 70)
       \<and> snd (rsi_step row (s, rs)) =
           rs @ [if r < 30 then RSI_Oversold r
                 else if r > 70 then RSI_Overbought r else RSI_Neutral r]
       \<and> fst (raw_score row) =
           fst (raw_score (row\<lparr>rsi14 := None\<rparr>)) + (fst (rsi_step row (s, rs)) - s)
       \<and> length (snd (raw_score row)) =
           length (snd (raw_score (row\<lparr>rsi14 := None\<rparr>))) + 1"
proof -
  have step: "rsi_step row (s, rs) =
      (s + (if r < 30 then 10 else if r > 70 then - 10 else 0),
       rs @ [if r < 30 then RSI_Oversold r
             else if r > 70 then RSI_Overbought r else RSI_Neutral r])"
    using assms by (simp add: rsi_step_def)
  have d: "step_delta (rsi_step row) = (if r < 30 then 10 else if r > 70 then - 10 else 0)"
    using assms by (simp add: step_delta_def rsi_step_def)
  have e: "length (step_reasons (rsi_step row)) = 1"
    using assms by (simp add: step_reasons_def rsi_step_def)
  have d0: "step_delta (rsi_step (row\<lparr>rsi14 := None\<rparr>)) = 0"
    by (simp add: step_delta_def rsi_step_def)
  have e0: "step_reasons (rsi_step (row\<lparr>rsi14 := None\<rparr>)) = []"
    by (simp add: step_reasons_def rsi_step_def)
  have score: "fst (raw_score row) =
      fst (raw_score (row\<lparr>rsi14 := None\<rparr>)) + step_delta (rsi_step row)"
    by (simp add: raw_score_sum other_steps_without_rsi d0)
  have reasons: "length (snd (raw_score row)) =
      length (snd (raw_score (row\<lparr>rsi14 := None\<rparr>))) + 1"
    by (simp add: raw_score_sum other_steps_without_rsi e0 e)
  show ?thesis
    using step d score reasons by simp
qed

theorem rsi_factor_witness:
  "rsi14 scenario1 = Some 50
   \<and> rsi_step scenario1 (74, []) = (74, [RSI_Neutral 50])
   \<and> fst (raw_score scenario1) = fst (raw_score (scenario1\<lparr>rsi14 := None\<rparr>))
   \<and> length (snd (raw_score scenario1)) =
       length (snd (raw_score (scenario1\<lparr>rsi14 := None\<rparr>))) + 1"
proof -
  have h: "rsi14 scenario1 = Some 50"
    by (simp add: scenario1_def)
  have "fst (rsi_step scenario1 (74, [])) = 74"
    by (simp add: rsi_step_def scenario1_def)
  with h rsi_factor [OF h, of 74 "[]"] show ?thesis
    by (simp add: prod_eq_iff)
qed

text \<open>
  C9. When a moving average is defined and the close equals it, the Row Scorer treats the
  tie as below: the block takes its delta off (8 for ma20, 10 for ma60, 6 for ma120) and
  appends the below reason, which is among the reasons returned.
\<close>

theorem ma_tie_is_below:
  "(ma20 row = Some (close row) \<longrightarrow>
      ma20_step row (s, rs) = (s - 8, rs @ [Below_MA20])
      \<and> Below_MA20 \<in> set (fst (snd (score_from_row row))))
   \<and> (ma60 row = Some (close row) \<longrightarrow>
      ma60_step row (s, rs) = (s - 10, rs @ [Below_MA60])
      \<and> Below_MA60 \<in> set (fst (snd (score_from_row row))))
   \<and> (ma120 row = Some (close row) \<longrightarrow>
      ma120_step row (s, rs) = (s - 6, rs @ [Below_MA120])
      \<and> Below_MA120 \<in> set (fst (snd (score_from_row row))))"
proof -
  have r: "fst (snd (score_from_row row)) = snd (raw_score row)"
    by (simp add: score_from_row_def split: prod.splits)
  have a: "ma20 row = Some (close row) \<Longrightarrow> step_reasons (ma20_step row) = [Below_MA20]"
    by (simp add: step_reasons_def ma20_step_def above_def)
  have b: "ma60 row = Some (close row) \<Longrightarrow> step_reasons (ma60_step row) = [Below_MA60]"
    by (simp add: step_reasons_def ma60_step_def above_def)
  have c: "ma120 row = Some (close row) \<Longrightarrow> step_reasons (ma120_step row) = [Below_MA120]"
    by (simp add: step_reasons_def ma120_step_def above_def)
  show ?thesis
    using a b c
    by (simp add: r set_raw_reasons ma20_step_def ma60_step_def ma120_step_def above_def)
qed

theorem ma_tie_is_below_witness:
  "ma20 tie_row = Some (close tie_row)
   \<and> ma60 tie_row = Some (close tie_row)
   \<and> ma120 tie_row = Some (close tie_row)
   \<and> ma20_step tie_row (50, []) = (42, [Below_MA20])
   \<and> ma60_step tie_row (42, [Below_MA20]) = (32, [Below_MA20, Below_MA60])
   \<and> ma120_step tie_row (32, [Below_MA20, Below_MA60]) =
       (26, [Below_MA20, Below_MA60, Below_MA120])
   \<and> {Below_MA20, Below_MA60, Below_MA120} \<subseteq> set (fst (snd (score_from_row tie_row)))"
proof -
  have h: "ma20 tie_row = Some (close tie_row)" "ma60 tie_row = Some (close tie_row)"
    "ma120 tie_row = Some (close tie_row)"
    by (simp_all add: tie_row_def)
  show ?thesis
    using h ma_tie_is_below [of tie_row 50 "[]"]
      ma_tie_is_below [of tie_row 42 "[Below_MA20]"]
      ma_tie_is_below [of tie_row 32 "[Below_MA20, Below_MA60]"]
    by simp
qed

section \<open>Properties of the range position\<close>

lemma rolling_contains_row:
  assumes "rolling w xs i = Some ws"
  shows "xs ! i \<in> set ws"
proof -
  from assms have w: "0 < w" "w \<le> i + 1" "i < length xs"
    and ws: "ws = take w (drop (i + 1 - w) xs)"
    by (auto simp add: rolling_def split: if_splits)
  have "length ws = w"
    using w ws by simp
  moreover have "ws ! (w - 1) = xs ! i"
    using w ws by simp
  ultimately show ?thesis
    using w nth_mem [of "w - 1" ws] by simp
qed

text \<open>
  C8, as stated: on a rolling range of zero width, \<^verbatim>\<open>pos20\<close> is a large value.
  It is not: on twenty equal closes the low and the high are both 100 and
  \<^verbatim>\<open>pos20\<close> is 0.
\<close>

theorem pos20_zero_width_not_large:
  "low20 flat_closes 19 = Some 100
   \<and> high20 flat_closes 19 = Some 100
   \<and> pos20_col flat_closes 19 = Some 0"
  by (simp add: flat_closes_def pos20_col_def pos20_divisor_def low20_def high20_def
      rolling_def)

text \<open>
  C8, amended. Wherever the 20-day window is defined, the divisor
  \<^verbatim>\<open>high20 - low20 + 1e-9\<close> is positive, so \<^verbatim>\<open>pos20\<close> never divides by zero
  and is a finite number; on a range of zero width (\<^verbatim>\<open>high20 = low20\<close>) the close
  equals the low and \<^verbatim>\<open>pos20\<close> is exactly 0.
\<close>

theorem pos20_divisor_positive:
  assumes "low20 closes i = Some lo" and "high20 closes i = Some hi"
  shows "pos20_divisor closes i = Some (hi - lo + 1 / 10 ^ 9)
       \<and> 0 < hi - lo + 1 / 10 ^ 9
       \<and> pos20_col closes i = Some ((closes ! i - lo) / (hi - lo + 1 / 10 ^ 9))
       \<and> (hi = lo \<longrightarrow> pos20_col closes i = Some 0)"
proof -
  from assms obtain ws where ws: "rolling 20 closes i = Some ws"
    and lo: "lo = Min (set ws)" and hi: "hi = Max (set ws)"
    by (auto simp add: low20_def high20_def)
  have mem: "closes ! i \<in> set ws"
    using ws by (rule rolling_contains_row)
  have le: "lo \<le> closes ! i" "closes ! i \<le> hi"
    using mem lo hi by simp_all
  then have pos: "0 < hi - lo + 1 / 10 ^ 9"
    by simp
  have d: "pos20_divisor closes i = Some (hi - lo + 1 / 10 ^ 9)"
    using assms by (simp add: pos20_divisor_def)
  have col: "pos20_col closes i = Some ((closes ! i - lo) / (hi - lo + 1 / 10 ^ 9))"
    using assms(1) d pos by (simp add: pos20_col_def)
  have zero: "pos20_col closes i = Some 0" if "hi = lo"
  proof -
    from that le have "closes ! i = lo"
      by simp
    with col show ?thesis
      by simp
  qed
  from d pos col zero show ?thesis
    by blast
qed

theorem pos20_divisor_positive_witness:
  "low20 flat_closes 19 = Some 100
   \<and> high20 flat_closes 19 = Some 100
   \<and> pos20_divisor flat_closes 19 = Some (1 / 10 ^ 9)
   \<and> pos20_col flat_closes 19 = Some 0"
proof -
  have lo: "low20 flat_closes 19 = Some 100"
    by (simp add: flat_closes_def low20_def rolling_def)
  have hi: "high20 flat_closes 19 = Some 100"
    by (simp add: flat_closes_def high20_def rolling_def)
  from pos20_divisor_positive [OF lo hi]
  have d: "pos20_divisor flat_closes 19 = Some (100 - 100 + 1 / 10 ^ 9)"
    and z: "(100::real) = 100 \<longrightarrow> pos20_col flat_closes 19 = Some 0"
    by blast+
  from z have "pos20_col flat_closes 19 = Some 0"
    by simp
  with lo hi d show ?thesis
    by simp
qed

section \<open>Properties of the Backtest Engine\<close>

lemma one_bin:
  "0 \<le> s \<Longrightarrow> s \<le> 100 \<Longrightarrow> length (filter (\<lambda>(lo, hi, name). in_bin lo hi s) bins) = 1"
  by (simp add: bins_def in_bin_def)

lemma bin_is_rating:
  "0 \<le> s \<Longrightarrow> s \<le> 100 \<Longrightarrow> (lo, hi, name) \<in> set bins \<Longrightarrow>
   in_bin lo hi s \<longleftrightarrow> score_to_rating s = bin_rating name"
  by (auto simp add: bins_def in_bin_def score_to_rating_def)

text \<open>Every sample that the loop collects carries a score between 0 and 100.\<close>

lemma collect_rows_scores:
  "collect_rows df h is rows = Inr out \<Longrightarrow>
   list_all (\<lambda>(s, r). 0 \<le> s \<and> s \<le> 100) rows \<Longrightarrow>
   list_all (\<lambda>(s, r). 0 \<le> s \<and> s \<le> 100) out"
proof (induction "is" arbitrary: rows)
  case Nil
  then show ?case by simp
next
  case (Cons i "is")
  show ?case
  proof (cases "fwd_ret df h i")
    case NaN
    with Cons show ?thesis by (simp split: if_splits)
  next
    case Infinite
    with Cons.prems show ?thesis by (simp split: if_splits)
  next
    case (Finite fwd)
    with Cons.prems have
      "collect_rows df h is (rows @ [(fst (score_from_row (df ! i)), fwd)]) = Inr out"
      by (simp split: if_splits)
    moreover have "list_all (\<lambda>(s, r). 0 \<le> s \<and> s \<le> 100)
        (rows @ [(fst (score_from_row (df ! i)), fwd)])"
      using Cons.prems(2) score_bounds [of "df ! i"] by simp
    ultimately show ?thesis by (rule Cons.IH)
  qed
qed

lemma bin_n_out:
  "bin_n (bin_out rows (lo, hi, name)) = length (filter (\<lambda>(s, r). in_bin lo hi s) rows)"
  by (simp add: bin_out_def Let_def)

text \<open>The counts of the five bins add up to the number of samples.\<close>

lemma bin_counts_sum:
  "list_all (\<lambda>(s, r). 0 \<le> s \<and> s \<le> 100) rows \<Longrightarrow>
   sum_list (map (\<lambda>b. bin_n (bin_out rows b)) bins) = length rows"
proof (induction rows)
  case Nil
  then show ?case by (simp add: bins_def bin_n_out)
next
  case (Cons x rows)
  obtain s r where x: "x = (s, r)" by (cases x)
  from Cons.prems x have s: "0 \<le> s" "s \<le> 100" by simp_all
  from Cons have IH: "sum_list (map (\<lambda>b. bin_n (bin_out rows b)) bins) = length rows"
    by simp
  show ?case
    using IH s by (simp add: bins_def bin_n_out x in_bin_def)
qed

lemma report_rows:
  assumes "backtest_score_bins df h = Inr (Report ov bs hz)"
  shows "\<exists>rows. collect_rows df h [260 ..< nat (int (length df) - h - 1)] [] = Inr rows
     \<and> rows \<noteq> [] \<and> ov = overall rows \<and> bs = map (bin_out rows) bins \<and> hz = h
     \<and> 260 < int (length df) - h - 1"
  using assms
  by (auto simp add: backtest_score_bins_def Let_def split: if_splits sum.splits)

text \<open>A run that succeeds: 262 rows of constant close, horizon 0.\<close>

lemma flat_frame_262_report:
  "backtest_score_bins (flat_frame 262) 0 =
     Inr (Report (Overall_Stat 1 0 0)
       [Bin_Stat Strong_Buy_80_100 0 None None,
        Bin_Stat Buy_60_79 0 None None,
        Bin_Stat Neutral_40_59 1 (Some 0) (Some 0),
        Bin_Stat Sell_20_39 0 None None,
        Bin_Stat Strong_Sell_0_19 0 None None]
       0)"
  by (simp add: flat_frame_def backtest_score_bins_def fwd_ret_def undefined_row_def
      score_from_row_def raw_score_def step_defs overall_def bins_def bin_out_def
      in_bin_def win_rate_of_def avg_return_of_def)

text \<open>
  C4. The five bins 80-100, 60-79, 40-59, 20-39 and 0-19, tested as
  \<open>lo \<le> score \<le> hi\<close>, partition the integer scores 0..100: every such score, and so
  the score of every row, lies in exactly one bin, and it lies in a bin exactly when the
  Rating Mapper gives it the rating of that bin. In a report the counts of the bins add
  up to the number of samples.
\<close>

theorem bins_partition:
  "(0 \<le> s \<and> s \<le> 100 \<longrightarrow>
      length (filter (\<lambda>(lo, hi, name). in_bin lo hi s) bins) = 1
      \<and> list_all (\<lambda>(lo, hi, name). in_bin lo hi s \<longleftrightarrow> score_to_rating s = bin_rating name)
          bins)
   \<and> length (filter (\<lambda>(lo, hi, name). in_bin lo hi (fst (score_from_row row))) bins) = 1
   \<and> (backtest_score_bins df h = Inr (Report (Overall_Stat n w a) bs hz) \<longrightarrow>
        sum_list (map bin_n bs) = n)"
proof -
  have A: "0 \<le> s \<and> s \<le> 100 \<longrightarrow>
      length (filter (\<lambda>(lo, hi, name). in_bin lo hi s) bins) = 1
      \<and> list_all (\<lambda>(lo, hi, name). in_bin lo hi s \<longleftrightarrow> score_to_rating s = bin_rating name)
          bins"
    using one_bin [of s] bin_is_rating [of s] by (auto simp add: list_all_iff)
  have B: "length (filter (\<lambda>(lo, hi, name). in_bin lo hi (fst (score_from_row row))) bins) = 1"
    using score_bounds [of row] by (intro one_bin) simp_all
  have C: "sum_list (map bin_n bs) = n"
    if rep: "backtest_score_bins df h = Inr (Report (Overall_Stat n w a) bs hz)"
  proof -
    from report_rows [OF rep] obtain rows where
      rows: "collect_rows df h [260 ..< nat (int (length df) - h - 1)] [] = Inr rows"
      and ov: "Overall_Stat n w a = overall rows" and bs: "bs = map (bin_out rows) bins"
      by blast
    have "list_all (\<lambda>(s, r). 0 \<le> s \<and> s \<le> 100) rows"
      using collect_rows_scores [OF rows] by simp
    then have "sum_list (map (\<lambda>b. bin_n (bin_out rows b)) bins) = length rows"
      by (rule bin_counts_sum)
    moreover have "n = length rows"
      using ov by (simp add: overall_def Let_def)
    ultimately show ?thesis
      by (simp add: bs comp_def)
  qed
  from A B C show ?thesis by blast
qed

theorem bins_partition_witness:
  "(0::int) \<le> 79 \<and> (79::int) \<le> 100
   \<and> length (filter (\<lambda>(lo, hi, name). in_bin lo hi 79) bins) = 1
   \<and> filter (\<lambda>(lo, hi, name). in_bin lo hi 79) bins = [(60, 79, Buy_60_79)]
   \<and> score_to_rating 79 = bin_rating Buy_60_79
   \<and> (\<exists>ov bs. backtest_score_bins (flat_frame 262) 0 = Inr (Report ov bs 0)
        \<and> sum_list (map bin_n bs) = 1)"
proof -
  have f: "filter (\<lambda>(lo, hi, name). in_bin lo hi 79) bins = [(60, 79, Buy_60_79)]"
    by (simp add: bins_def in_bin_def)
  have r: "score_to_rating 79 = bin_rating Buy_60_79"
    by (simp add: score_to_rating_def)
  have "sum_list (map bin_n
       [Bin_Stat Strong_Buy_80_100 0 None None,
        Bin_Stat Buy_60_79 0 None None,
        Bin_Stat Neutral_40_59 1 (Some 0) (Some 0),
        Bin_Stat Sell_20_39 0 None None,
        Bin_Stat Strong_Sell_0_19 0 None None]) = 1"
    using bins_partition [where df = "flat_frame 262" and h = 0 and n = 1 and w = 0
        and a = 0 and hz = 0] flat_frame_262_report
    by blast
  then show ?thesis
    using f r flat_frame_262_report bins_partition [of 79] by simp
qed

text \<open>
  C5. A series of fewer than 260 + horizon + 1 rows gives the failure result with the
  insufficient-data message, and no exception; so does a series of ten rows with
  horizon 20.
\<close>

theorem short_series_fails:
  "int (length df) < 260 + horizon + 1 \<Longrightarrow>
   backtest_score_bins df horizon = Inr (Failure Insufficient_Data)"
  by (simp add: backtest_score_bins_def)

theorem short_series_fails_witness:
  "int (length (flat_frame 10)) < 260 + 20 + 1
   \<and> backtest_score_bins (flat_frame 10) 20 = Inr (Failure Insufficient_Data)"
proof -
  have h: "int (length (flat_frame 10)) < 260 + 20 + 1"
    by (simp add: flat_frame_def)
  show ?thesis
    using h short_series_fails [OF h] by simp
qed

text \<open>
  C10. The insufficient-data failure is the result exactly when
  \<open>len - horizon - 1 \<le> 260\<close>, that is \<open>len \<le> 261 + horizon\<close>: a series of exactly
  260 + horizon + 1 rows still fails, and a report needs at least 262 + horizon rows.
\<close>

theorem insufficient_data_iff:
  "(backtest_score_bins df h = Inr (Failure Insufficient_Data)
      \<longleftrightarrow> int (length df) - h - 1 \<le> 260)
   \<and> (int (length df) - h - 1 \<le> 260 \<longleftrightarrow> int (length df) \<le> 261 + h)
   \<and> (int (length df) = 260 + h + 1 \<longrightarrow>
        backtest_score_bins df h = Inr (Failure Insufficient_Data))
   \<and> (backtest_score_bins df h = Inr (Report ov bs hz) \<longrightarrow> 262 + h \<le> int (length df))"
  by (auto simp add: backtest_score_bins_def Let_def split: if_splits sum.splits)

theorem insufficient_data_iff_witness:
  "int (length (flat_frame 281)) = 260 + 20 + 1
   \<and> backtest_score_bins (flat_frame 281) 20 = Inr (Failure Insufficient_Data)
   \<and> (\<exists>ov bs hz. backtest_score_bins (flat_frame 262) 0 = Inr (Report ov bs hz))
   \<and> 262 + 0 \<le> int (length (flat_frame 262))"
proof -
  have h: "int (length (flat_frame 281)) = 260 + 20 + 1"
    by (simp add: flat_frame_def)
  have fail: "backtest_score_bins (flat_frame 281) 20 = Inr (Failure Insufficient_Data)"
    using h insufficient_data_iff [of "flat_frame 281" 20] by simp
  have len: "262 + 0 \<le> int (length (flat_frame 262))"
    using flat_frame_262_report insufficient_data_iff [of "flat_frame 262" 0] by blast
  show ?thesis
    using h fail len flat_frame_262_report by simp
qed

end
